theory Spec2Isabelle
  imports Main "HOL-Library.Word" "HOL-Library.Sublist"
begin

unbundle bit_operations_syntax

section \<open>napalm-ros: SSH client, host-key store and configuration deployment\<close>

text \<open>
  The development embeds \<^verbatim>\<open>napalm_ros/ssh_client.py\<close>, \<^verbatim>\<open>napalm_ros/models.py\<close> and
  the two SSH based methods of \<^verbatim>\<open>napalm_ros/ros.py\<close> (\<^verbatim>\<open>get_config\<close> and
  \<^verbatim>\<open>load_replace_candidate\<close>).

  Python text and Python \<^verbatim>\<open>bytes\<close> that carry text are both \<^typ>\<open>string\<close>: a text is
  represented by its UTF-8 bytes, so \<^verbatim>\<open>encode("utf8")\<close> and \<^verbatim>\<open>decode("utf8")\<close> are the
  identity. Binary key material is a list of 8-bit words.
\<close>

subsection \<open>The Python library functions the code calls\<close>

type_synonym byte = "8 word"

datatype error =
    ValueError string
  | AttributeError string
  | BinasciiError string
  | OSError string
  | SocketError string
  | SSHException string
  | UnicodeDecodeError string
  | SshClientNotOpen string
  | SshCommandException string
  | CommandErrorException string

text \<open>\<^verbatim>\<open>s.split(" ", 1)\<close>: the text before and after the first space, or the whole text
  alone when it has no space.\<close>

definition split1 :: "string \<Rightarrow> string list" where
  "split1 s =
     (if CHR '' '' \<in> set s
      then [takeWhile (\<lambda>c. c \<noteq> CHR '' '') s, tl (dropWhile (\<lambda>c. c \<noteq> CHR '' '') s)]
      else [s])"

text \<open>\<^verbatim>\<open>bytes.strip()\<close> without argument removes leading and trailing ASCII whitespace.\<close>

definition whitespace :: "char \<Rightarrow> bool" where
  "whitespace c \<longleftrightarrow> c \<in> set [CHR 0x09, CHR 0x0A, CHR 0x0B, CHR 0x0C, CHR 0x0D, CHR 0x20]"

definition strip :: "string \<Rightarrow> string" where
  "strip s = rev (dropWhile whitespace (rev (dropWhile whitespace s)))"

text \<open>
  \<^verbatim>\<open>str.strip()\<close> removes every leading and trailing character that Unicode takes as
  whitespace. On the UTF-8 bytes of a text these are the ASCII whitespace characters,
  the separators \<^verbatim>\<open>U+001C\<close> to \<^verbatim>\<open>U+001F\<close>, and the encodings of \<^verbatim>\<open>U+0085\<close>,
  \<^verbatim>\<open>U+00A0\<close>, \<^verbatim>\<open>U+1680\<close>, \<^verbatim>\<open>U+2000\<close> to \<^verbatim>\<open>U+200A\<close>, \<^verbatim>\<open>U+2028\<close>, \<^verbatim>\<open>U+2029\<close>,
  \<^verbatim>\<open>U+202F\<close>, \<^verbatim>\<open>U+205F\<close> and \<^verbatim>\<open>U+3000\<close>.
\<close>

definition unicode_whitespace :: "string list" where
  "unicode_whitespace =
     map (\<lambda>c. [c]) [CHR 0x09, CHR 0x0A, CHR 0x0B, CHR 0x0C, CHR 0x0D,
                    CHR 0x1C, CHR 0x1D, CHR 0x1E, CHR 0x1F, CHR 0x20]
     @ [[CHR 0xC2, CHR 0x85], [CHR 0xC2, CHR 0xA0], [CHR 0xE1, CHR 0x9A, CHR 0x80]]
     @ map (\<lambda>c. [CHR 0xE2, CHR 0x80, c])
         [CHR 0x80, CHR 0x81, CHR 0x82, CHR 0x83, CHR 0x84, CHR 0x85, CHR 0x86, CHR 0x87,
          CHR 0x88, CHR 0x89, CHR 0x8A, CHR 0xA8, CHR 0xA9, CHR 0xAF]
     @ [[CHR 0xE2, CHR 0x81, CHR 0x9F], [CHR 0xE3, CHR 0x80, CHR 0x80]]"

text \<open>Dropping whitespace from the front; the first argument bounds the number of
  steps by the length of the text.\<close>

fun lstrip :: "string list \<Rightarrow> nat \<Rightarrow> string \<Rightarrow> string" where
  "lstrip ws 0 s = s"
| "lstrip ws (Suc k) s =
     (case find (\<lambda>p. prefix p s) ws of
        None \<Rightarrow> s
      | Some p \<Rightarrow> lstrip ws k (drop (length p) s))"

definition str_strip :: "string \<Rightarrow> string" where
  "str_strip s =
     rev (lstrip (map rev unicode_whitespace) (length s)
            (rev (lstrip unicode_whitespace (length s) s)))"

text \<open>
  \<^verbatim>\<open>decode("utf8")\<close> raises \<^verbatim>\<open>UnicodeDecodeError\<close> unless the bytes are well-formed UTF-8:
  no overlong form, no surrogate, nothing above \<^verbatim>\<open>U+10FFFF\<close>. The decoded text keeps
  its UTF-8 representation.
\<close>

definition continuation :: "nat \<Rightarrow> bool" where
  "continuation b \<longleftrightarrow> 128 \<le> b \<and> b \<le> 191"

fun utf8_wellformed :: "nat list \<Rightarrow> bool" where
  "utf8_wellformed [] = True"
| "utf8_wellformed (a # rest) =
     (if a \<le> 127 then utf8_wellformed rest
      else if 194 \<le> a \<and> a \<le> 223 then
        (case rest of
           b # r \<Rightarrow> continuation b \<and> utf8_wellformed r
         | _ \<Rightarrow> False)
      else if 224 \<le> a \<and> a \<le> 239 then
        (case rest of
           b # c # r \<Rightarrow>
             (if a = 224 then 160 \<le> b \<and> b \<le> 191
              else if a = 237 then 128 \<le> b \<and> b \<le> 159
              else continuation b)
             \<and> continuation c \<and> utf8_wellformed r
         | _ \<Rightarrow> False)
      else if 240 \<le> a \<and> a \<le> 244 then
        (case rest of
           b # c # d # r \<Rightarrow>
             (if a = 240 then 144 \<le> b \<and> b \<le> 191
              else if a = 244 then 128 \<le> b \<and> b \<le> 143
              else continuation b)
             \<and> continuation c \<and> continuation d \<and> utf8_wellformed r
         | _ \<Rightarrow> False)
      else False)"

definition decode_utf8 :: "string \<Rightarrow> error + string" where
  "decode_utf8 s =
     (if utf8_wellformed (map of_char s) then Inr s
      else Inl (UnicodeDecodeError ''utf-8 codec cannot decode''))"

text \<open>\<^verbatim>\<open>text[:n]\<close> on a decoded text: its first \<open>n\<close> characters, each with its
  continuation bytes.\<close>

fun take_chars :: "nat \<Rightarrow> string \<Rightarrow> string" where
  "take_chars 0 s = []"
| "take_chars (Suc n) [] = []"
| "take_chars (Suc n) (c # cs) =
     c # takeWhile (\<lambda>b. continuation (of_char b)) cs
       @ take_chars n (dropWhile (\<lambda>b. continuation (of_char b)) cs)"

text \<open>\<^verbatim>\<open>readlines()\<close>: the lines of a text, each with its line feed.\<close>

fun readlines_acc :: "string \<Rightarrow> string \<Rightarrow> string list" where
  "readlines_acc acc [] = (if acc = [] then [] else [rev acc])"
| "readlines_acc acc (c # cs) =
     (if c = CHR 0x0A then rev (c # acc) # readlines_acc [] cs
      else readlines_acc (c # acc) cs)"

definition readlines :: "string \<Rightarrow> string list" where
  "readlines s = readlines_acc [] s"

subsubsection \<open>base64\<close>

definition table_b2a_base64 :: string where
  "table_b2a_base64 =
     ''ABCDEFGHIJKLMNOPQRSTUVWXYZabcdefghijklmnopqrstuvwxyz0123456789+/''"

definition BASE64_PAD :: char where
  "BASE64_PAD = CHR ''=''"

definition b2a :: "byte \<Rightarrow> char" where
  "b2a v = table_b2a_base64 ! unat v"

text \<open>\<^verbatim>\<open>binascii.b2a_base64\<close> without its final line feed: three bytes give four
  characters, and a last group of one or two bytes is padded with \<^verbatim>\<open>=\<close>.\<close>

fun b2a_groups :: "byte list \<Rightarrow> string" where
  "b2a_groups (x # y # z # rest) =
     [b2a (drop_bit 2 x),
      b2a (push_bit 4 (x AND 3) OR drop_bit 4 y),
      b2a (push_bit 2 (y AND 15) OR drop_bit 6 z),
      b2a (z AND 63)] @ b2a_groups rest"
| "b2a_groups [x, y] =
     [b2a (drop_bit 2 x),
      b2a (push_bit 4 (x AND 3) OR drop_bit 4 y),
      b2a (push_bit 2 (y AND 15)),
      BASE64_PAD]"
| "b2a_groups [x] =
     [b2a (drop_bit 2 x), b2a (push_bit 4 (x AND 3)), BASE64_PAD, BASE64_PAD]"
| "b2a_groups [] = []"

definition b2a_base64 :: "byte list \<Rightarrow> string" where
  "b2a_base64 s = b2a_groups s @ [CHR 0x0A]"

definition MAXBINSIZE :: nat where
  "MAXBINSIZE = 57"

text \<open>\<^verbatim>\<open>base64.encodebytes\<close>: every chunk of 57 bytes is encoded on a line of its own.\<close>

function encodebytes :: "byte list \<Rightarrow> string" where
  "encodebytes s =
     (if s = [] then []
      else b2a_base64 (take MAXBINSIZE s) @ encodebytes (drop MAXBINSIZE s))"
  by pat_completeness auto
termination
  by (relation "measure length") (auto simp: MAXBINSIZE_def)

declare encodebytes.simps [simp del]

text \<open>\<^verbatim>\<open>table_a2b_base64\<close>: the value of a character of the alphabet, and a value of 64
  or more for every other character.\<close>

definition table_a2b_base64 :: "char \<Rightarrow> byte" where
  "table_a2b_base64 c =
     (let n = (of_char c :: nat) in
      if 65 \<le> n \<and> n \<le> 90 then of_nat (n - 65)
      else if 97 \<le> n \<and> n \<le> 122 then of_nat (n - 71)
      else if 48 \<le> n \<and> n \<le> 57 then of_nat (n + 4)
      else if n = 43 then 62
      else if n = 47 then 63
      else 255)"

text \<open>
  The loop of \<^verbatim>\<open>binascii.a2b_base64\<close> in its default, non-strict mode. The state is
  the position \<open>quad_pos\<close> in the current group of four characters, the bits
  \<open>leftchar\<close> left over from the previous character, the number \<open>pads\<close> of padding
  characters seen, and the bytes decoded so far. A character outside of the alphabet
  is skipped; a complete padding ends the decoding; input that ends inside a group
  is an error.
\<close>

fun a2b_loop :: "nat \<Rightarrow> byte \<Rightarrow> nat \<Rightarrow> byte list \<Rightarrow> string \<Rightarrow> error + byte list" where
  "a2b_loop quad_pos leftchar pads out [] =
     (if quad_pos \<noteq> 0 then
        (if quad_pos = 1
         then Inl (BinasciiError ''Invalid base64-encoded string'')
         else Inl (BinasciiError ''Incorrect padding''))
      else Inr out)"
| "a2b_loop quad_pos leftchar pads out (c # cs) =
     (if c = BASE64_PAD then
        (if quad_pos \<ge> 2 then
           (if quad_pos + (pads + 1) \<ge> 4 then Inr out
            else a2b_loop quad_pos leftchar (pads + 1) out cs)
         else a2b_loop quad_pos leftchar pads out cs)
      else
        (let this_ch = table_a2b_base64 c in
         if unat this_ch \<ge> 64 then a2b_loop quad_pos leftchar pads out cs
         else if quad_pos = 0 then a2b_loop 1 this_ch 0 out cs
         else if quad_pos = 1 then
           a2b_loop 2 (this_ch AND 15) 0
             (out @ [push_bit 2 leftchar OR drop_bit 4 this_ch]) cs
         else if quad_pos = 2 then
           a2b_loop 3 (this_ch AND 3) 0
             (out @ [push_bit 4 leftchar OR drop_bit 2 this_ch]) cs
         else
           a2b_loop 0 0 0 (out @ [push_bit 6 leftchar OR this_ch]) cs))"

definition a2b_base64 :: "string \<Rightarrow> error + byte list" where
  "a2b_base64 s = a2b_loop 0 0 0 [] s"

text \<open>\<^verbatim>\<open>base64.b64decode(s)\<close> on a text: the text must be ASCII, then it is decoded.\<close>

definition b64decode :: "string \<Rightarrow> error + byte list" where
  "b64decode s =
     (if list_ex (\<lambda>c. (of_char c :: nat) \<ge> 128) s
      then Inl (ValueError ''string argument should contain only ASCII characters'')
      else a2b_base64 s)"


subsection \<open>The device, the network and the database\<close>

text \<open>
  The reply of a remote command: captured standard output, standard error and the exit
  status (the unused \<^verbatim>\<open>stdin\<close> handle is left out).
\<close>

type_synonym reply = "string \<times> string \<times> int"

text \<open>A server host key as paramiko hands it out (\<^verbatim>\<open>get_name()\<close>, \<^verbatim>\<open>asbytes()\<close>).\<close>

record ssh_key =
  get_name :: string
  asbytes :: "byte list"

datatype key_class = RSAKey | ECDSAKey

text \<open>What \<^verbatim>\<open>SSHClient.connect\<close> is called with: the host, the user, the timeout, the one
  trusted host key (its declared type, the key class built for it and its bytes), and
  the credentials.\<close>

record connect_args =
  c_host :: string
  c_username :: string
  c_timeout :: int
  c_key_type :: string
  c_key_class :: key_class
  c_key_data :: "byte list"
  c_pkey :: "string option"
  c_password :: "string option"

text \<open>
  Every interaction with the outside world is logged, with what came back. A paramiko
  \<^verbatim>\<open>SSHClient\<close> object is a number.
\<close>

text \<open>
  How \<^verbatim>\<open>SSHClient.connect\<close> ends: the session is open; or no transport was set up (the
  host cannot be reached); or the transport is running but the server's key or the
  credentials were refused, which raises and leaves the transport of that client
  active.
\<close>

datatype connect_result = Connected | Unreachable | Rejected

datatype event =
    Handshake string
  | Connect nat connect_args connect_result
  | Close nat
  | ExecCommand nat string "reply option"
  | SftpWrite nat string string bool
  | SftpRead nat string "string option"
  | Now

text \<open>
  The behaviour of everything outside of the program: each answer may depend on the
  history of events. \<open>server_key\<close> is the outcome of the bare transport handshake
  with a host (an error when the host cannot be reached or the handshake fails),
  \<open>host_key_ok\<close> and \<open>private_key_ok\<close> say whether paramiko accepts a key blob or
  a private key file, \<open>connect_reply\<close> how a connection attempt ends,
  \<open>exec_reply\<close> what a command sent over the client of that number returns (\<open>None\<close>
  when no channel can be opened), \<open>sftp_write_ok\<close> and \<open>sftp_read\<close> how a transfer ends,
  \<open>read_text\<close> is the local file system and \<open>now\<close> the ISO text of the clock.
\<close>

record env =
  server_key :: "event list \<Rightarrow> string \<Rightarrow> error + ssh_key"
  host_key_ok :: "key_class \<Rightarrow> byte list \<Rightarrow> bool"
  private_key_ok :: "string \<Rightarrow> bool"
  connect_reply :: "event list \<Rightarrow> connect_args \<Rightarrow> connect_result"
  exec_reply :: "event list \<Rightarrow> nat \<Rightarrow> string \<Rightarrow> reply option"
  sftp_write_ok :: "event list \<Rightarrow> nat \<Rightarrow> string \<Rightarrow> string \<Rightarrow> bool"
  sftp_read :: "event list \<Rightarrow> nat \<Rightarrow> string \<Rightarrow> string option"
  read_text :: "string \<Rightarrow> string option"
  now :: "event list \<Rightarrow> string"

text \<open>The model \<^verbatim>\<open>SshHostKey\<close>; \<^verbatim>\<open>created_at\<close> is filled in by the database and read
  by none of the code embedded here.\<close>

record SshHostKey =
  hostname :: string
  host_key :: string

text \<open>
  The world the program changes: the table of host keys (\<^verbatim>\<open>hostname\<close> is unique), the
  clients whose transport is active, the number of the next \<^verbatim>\<open>SSHClient\<close> object and
  the log.
\<close>

record world =
  store :: "SshHostKey list"
  live :: "nat list"
  next_client :: nat
  trace :: "event list"

definition log :: "event \<Rightarrow> world \<Rightarrow> world" where
  "log ev w = w\<lparr>trace := trace w @ [ev]\<rparr>"

text \<open>\<^verbatim>\<open>SshHostKey.objects.get(hostname=...)\<close>; \<open>None\<close> is \<^verbatim>\<open>DoesNotExist\<close>.\<close>

definition objects_get :: "SshHostKey list \<Rightarrow> string \<Rightarrow> SshHostKey option" where
  "objects_get rows h = find (\<lambda>r. hostname r = h) rows"

text \<open>\<^verbatim>\<open>save()\<close>: the row of that hostname is replaced, or the record is inserted.\<close>

fun save :: "SshHostKey \<Rightarrow> SshHostKey list \<Rightarrow> SshHostKey list" where
  "save r [] = [r]"
| "save r (x # xs) = (if hostname x = hostname r then r # xs else x # save r xs)"

subsection \<open>ssh\_client.py\<close>

record SshClient =
  client :: "nat option"
  open_count :: int
  host :: string
  username :: string
  client_host_key :: "string option"
  private_key :: "string option"
  password :: "string option"
  timeout :: int

text \<open>\<^verbatim>\<open>SshClient.__init__\<close>\<close>

definition init :: "string \<Rightarrow> string \<Rightarrow> string option \<Rightarrow> string option \<Rightarrow> string option
    \<Rightarrow> int \<Rightarrow> SshClient" where
  "init h u hk pk pw t =
     \<lparr>client = None, open_count = 0, host = h, username = u, client_host_key = hk,
      private_key = pk, password = pw, timeout = t\<rparr>"

type_synonym 'a result = "(error + 'a) \<times> SshClient \<times> world"

text \<open>Python truthiness of an optional text.\<close>

definition truthy :: "string option \<Rightarrow> bool" where
  "truthy x = (case x of None \<Rightarrow> False | Some s \<Rightarrow> s \<noteq> [])"

text \<open>Lines 45 to 49 of \<^verbatim>\<open>open\<close>: the stored text is split at its first space and the
  rest is decoded; the key class follows the declared type.\<close>

definition parse_host_key :: "string \<Rightarrow> error + (string \<times> key_class \<times> byte list)" where
  "parse_host_key hk =
     (case split1 hk of
        [host_key_type, host_key_data] \<Rightarrow>
          (case b64decode host_key_data of
             Inl e \<Rightarrow> Inl e
           | Inr data \<Rightarrow>
               Inr (host_key_type,
                    if host_key_type = ''ssh-rsa'' then RSAKey else ECDSAKey, data))
      | _ \<Rightarrow> Inl (ValueError ''not enough values to unpack (expected 2, got 1)''))"

text \<open>Lines 51 to 60 of \<^verbatim>\<open>open\<close>: what \<^verbatim>\<open>connect\<close> is called with. The private key and
  the password are passed when they are true for Python.\<close>

definition request :: "SshClient \<Rightarrow> string \<Rightarrow> key_class \<Rightarrow> byte list \<Rightarrow> connect_args" where
  "request c host_key_type cls data =
     \<lparr>c_host = host c, c_username = username c, c_timeout = timeout c,
      c_key_type = host_key_type, c_key_class = cls, c_key_data = data,
      c_pkey = (if truthy (private_key c) then private_key c else None),
      c_password = (if truthy (password c) then password c else None)\<rparr>"

definition ssh_open :: "env \<Rightarrow> SshClient \<Rightarrow> world \<Rightarrow> unit result" where
  "ssh_open e c0 w =
     (let c = c0\<lparr>open_count := open_count c0 + 1\<rparr> in
      case client_host_key c of
        None \<Rightarrow> (Inl (AttributeError ''NoneType object has no attribute split''), c, w)
      | Some hk \<Rightarrow>
         (case parse_host_key hk of
            Inl err \<Rightarrow> (Inl err, c, w)
          | Inr (host_key_type, cls, data) \<Rightarrow>
              if \<not> host_key_ok e cls data then (Inl (SSHException ''Invalid key''), c, w)
              else if (case private_key c of
                         None \<Rightarrow> False
                       | Some path \<Rightarrow> path \<noteq> [] \<and> \<not> private_key_ok e path)
              then (Inl (OSError ''private key file''), c, w)
              else
                (let args = request c host_key_type cls data;
                     n = next_client w;
                     c' = c\<lparr>client := Some n\<rparr>;
                     r = connect_reply e (trace w) args;
                     w' = log (Connect n args r) (w\<lparr>next_client := n + 1\<rparr>)
                 in case r of
                      Connected \<Rightarrow> (Inr (), c', w'\<lparr>live := n # live w'\<rparr>)
                    | Rejected \<Rightarrow> (Inl (SSHException ''connect''), c', w'\<lparr>live := n # live w'\<rparr>)
                    | Unreachable \<Rightarrow> (Inl (SocketError ''connect''), c', w'))))"

definition ssh_close :: "SshClient \<Rightarrow> world \<Rightarrow> unit result" where
  "ssh_close c0 w =
     (let c = c0\<lparr>open_count := open_count c0 - 1\<rparr> in
      if open_count c = 0 then
        (case client c of
           None \<Rightarrow> (Inl (AttributeError ''NoneType object has no attribute close''), c, w)
         | Some n \<Rightarrow> (Inr (), c, log (Close n) (w\<lparr>live := removeAll n (live w)\<rparr>)))
      else (Inr (), c, w))"

definition assert_open :: "SshClient \<Rightarrow> error + unit" where
  "assert_open c =
     (if open_count c = 0
      then Inl (SshClientNotOpen ''SSH client needs to be opened first. Call client.open()'')
      else Inr ())"

text \<open>The paramiko client behind \<^verbatim>\<open>self.client\<close>, when there is one and it has a
  transport; a client that was closed or never got a transport has none, and using it
  fails on \<^verbatim>\<open>None\<close>.\<close>

definition connection :: "SshClient \<Rightarrow> world \<Rightarrow> error + nat" where
  "connection c w =
     (case client c of
        None \<Rightarrow> Inl (AttributeError ''NoneType object has no attribute'')
      | Some n \<Rightarrow> if n \<in> set (live w) then Inr n
                  else Inl (AttributeError ''NoneType object has no attribute open_session''))"

definition exec :: "env \<Rightarrow> SshClient \<Rightarrow> world \<Rightarrow> string \<Rightarrow> reply result" where
  "exec e c w command =
     (case assert_open c of
        Inl err \<Rightarrow> (Inl err, c, w)
      | Inr _ \<Rightarrow>
         (case connection c w of
            Inl err \<Rightarrow> (Inl err, c, w)
          | Inr n \<Rightarrow>
             (let r = exec_reply e (trace w) n command; w' = log (ExecCommand n command r) w
              in case r of
                   None \<Rightarrow> (Inl (SSHException ''exec_command''), c, w')
                 | Some rep \<Rightarrow> (Inr rep, c, w'))))"

definition run :: "env \<Rightarrow> SshClient \<Rightarrow> world \<Rightarrow> string \<Rightarrow> bool \<Rightarrow> string list result" where
  "run e c w command raise_exceptions =
     (case assert_open c of
        Inl err \<Rightarrow> (Inl err, c, w)
      | Inr _ \<Rightarrow>
         (case exec e c w command of
            (Inl err, c', w') \<Rightarrow> (Inl err, c', w')
          | (Inr (stdout, stderr, exit_code), c', w') \<Rightarrow>
              if exit_code = 0 \<or> \<not> raise_exceptions
              then (case decode_utf8 stdout of
                      Inl err \<Rightarrow> (Inl err, c', w')
                    | Inr text \<Rightarrow> (Inr (map str_strip (readlines text)), c', w'))
              else (case decode_utf8 (if stderr \<noteq> [] then stderr else stdout) of
                      Inl err \<Rightarrow> (Inl err, c', w')
                    | Inr error \<Rightarrow>
                        (Inl (SshCommandException
                           (''Error executing: '' @ command @ [CHR 0x0A] @ ''Error: ''
                            @ error)), c', w'))))"

definition write_file :: "env \<Rightarrow> SshClient \<Rightarrow> world \<Rightarrow> string \<Rightarrow> string \<Rightarrow> unit result" where
  "write_file e c w path data =
     (case assert_open c of
        Inl err \<Rightarrow> (Inl err, c, w)
      | Inr _ \<Rightarrow>
         (case connection c w of
            Inl err \<Rightarrow> (Inl err, c, w)
          | Inr n \<Rightarrow>
             (let ok = sftp_write_ok e (trace w) n path data;
                  w' = log (SftpWrite n path data ok) w
              in if ok then (Inr (), c, w') else (Inl (OSError path), c, w'))))"

definition read_file :: "env \<Rightarrow> SshClient \<Rightarrow> world \<Rightarrow> string \<Rightarrow> string result" where
  "read_file e c w path =
     (case assert_open c of
        Inl err \<Rightarrow> (Inl err, c, w)
      | Inr _ \<Rightarrow>
         (case connection c w of
            Inl err \<Rightarrow> (Inl err, c, w)
          | Inr n \<Rightarrow>
             (let r = sftp_read e (trace w) n path; w' = log (SftpRead n path r) w
              in case r of
                   None \<Rightarrow> (Inl (OSError path), c, w')
                 | Some data \<Rightarrow> (Inr data, c, w'))))"

text \<open>The host-key algorithms the fetcher lets the transport negotiate.\<close>

definition preferred_keys :: "string list" where
  "preferred_keys =
     [''ecdsa-sha2-nistp256'', ''ecdsa-sha2-nistp384'', ''ecdsa-sha2-nistp521'', ''ssh-rsa'']"

definition get_fingerprint :: "env \<Rightarrow> world \<Rightarrow> string \<Rightarrow> (error + string) \<times> world" where
  "get_fingerprint e w h =
     (let w' = log (Handshake h) w in
      case server_key e (trace w) h of
        Inl err \<Rightarrow> (Inl err, w')
      | Inr ssh_key \<Rightarrow>
          if get_name ssh_key \<notin> set preferred_keys
          then (Inl (SSHException ''Incompatible ssh peer (no acceptable host key)''), w')
          else
            (let printable_type = get_name ssh_key;
                 printable_key = strip (encodebytes (asbytes ssh_key))
             in (Inr (printable_type @ '' '' @ printable_key), w')))"

subsection \<open>models.py\<close>

definition fetch_host_key :: "env \<Rightarrow> world \<Rightarrow> SshHostKey \<Rightarrow> bool
    \<Rightarrow> (error + SshHostKey) \<times> world" where
  "fetch_host_key e w self commit =
     (case get_fingerprint e w (hostname self) of
        (Inl err, w') \<Rightarrow> (Inl err, w')
      | (Inr fp, w') \<Rightarrow>
          (let self' = self\<lparr>host_key := fp\<rparr>
           in if commit then (Inr self', w'\<lparr>store := save self' (store w')\<rparr>)
              else (Inr self', w')))"

definition for_hostname :: "env \<Rightarrow> world \<Rightarrow> string \<Rightarrow> (error + SshHostKey) \<times> world" where
  "for_hostname e w h =
     (let host_key0 = (case objects_get (store w) h of
                         Some r \<Rightarrow> r
                       | None \<Rightarrow> \<lparr>hostname = h, host_key = []\<rparr>)
      in if host_key host_key0 = [] then fetch_host_key e w host_key0 True
         else (Inr host_key0, w))"

text \<open>\<^verbatim>\<open>__enter__\<close>, \<^verbatim>\<open>__exit__\<close> and the \<^verbatim>\<open>with self.ssh_client:\<close> block built from them:
  an error of the body is raised again after \<^verbatim>\<open>__exit__\<close> has run.\<close>

definition enter :: "env \<Rightarrow> SshClient \<Rightarrow> world \<Rightarrow> unit result" where
  "enter e c w =
     (if \<not> truthy (client_host_key c) then
        (case for_hostname e w (host c) of
           (Inl err, w') \<Rightarrow> (Inl err, c, w')
         | (Inr r, w') \<Rightarrow> ssh_open e (c\<lparr>client_host_key := Some (host_key r)\<rparr>) w')
      else ssh_open e c w)"

definition exit_client :: "SshClient \<Rightarrow> world \<Rightarrow> unit result" where
  "exit_client c w = ssh_close c w"

definition with_client :: "env \<Rightarrow> SshClient \<Rightarrow> world
    \<Rightarrow> (SshClient \<Rightarrow> world \<Rightarrow> 'a result) \<Rightarrow> 'a result" where
  "with_client e c w body =
     (case enter e c w of
        (Inl err, c1, w1) \<Rightarrow> (Inl err, c1, w1)
      | (Inr _, c1, w1) \<Rightarrow>
         (case body c1 w1 of
            (r, c2, w2) \<Rightarrow>
              (case exit_client c2 w2 of
                 (Inl err, c3, w3) \<Rightarrow> (Inl err, c3, w3)
               | (Inr _, c3, w3) \<Rightarrow> (r, c3, w3))))"

subsection \<open>ros.py\<close>

text \<open>
  The configuration-diff library \<^verbatim>\<open>routeros_diff\<close> is a parameter: \<open>parse\<close> is
  \<^verbatim>\<open>RouterOSConfig.parse\<close> and \<open>diff\<close> is \<^verbatim>\<open>config.diff(old=..., old_verbose=...)\<close>.
  A change set has its list of sections and its text \<^verbatim>\<open>str(diff)\<close>.
\<close>

record ChangeSet =
  sections :: "string list"
  str :: string

record 'doc routeros_diff =
  parse :: "string \<Rightarrow> 'doc"
  diff :: "'doc \<Rightarrow> 'doc \<Rightarrow> 'doc option \<Rightarrow> ChangeSet"

text \<open>An argument that is \<^verbatim>\<open>None\<close>, a text or a parsed \<^verbatim>\<open>RouterOSConfig\<close> (an object, which
  Python takes as true).\<close>

datatype 'doc config_arg = NoneArg | Text string | Doc 'doc

fun truthy_arg :: "'doc config_arg \<Rightarrow> bool" where
  "truthy_arg NoneArg = False"
| "truthy_arg (Text s) = (s \<noteq> [])"
| "truthy_arg (Doc d) = True"

definition get_config :: "env \<Rightarrow> SshClient \<Rightarrow> world \<Rightarrow> bool \<Rightarrow> string result" where
  "get_config e c w full =
     (let cmd = (if full then ''/export verbose'' else ''/export'') in
      with_client e c w (\<lambda>c1 w1.
        case exec e c1 w1 cmd of
          (Inl err, c2, w2) \<Rightarrow> (Inl err, c2, w2)
        | (Inr (stdout, stderr, status), c2, w2) \<Rightarrow>
            if status \<noteq> 0
            then (case decode_utf8 (if stderr \<noteq> [] then stderr else stdout) of
                    Inl err \<Rightarrow> (Inl err, c2, w2)
                  | Inr error \<Rightarrow> (Inl (CommandErrorException (take_chars 150 error)), c2, w2))
            else (case decode_utf8 stdout of
                    Inl err \<Rightarrow> (Inl err, c2, w2)
                  | Inr running \<Rightarrow> (Inr running, c2, w2))))"

text \<open>Lines 504 to 508: which text or document is the desired configuration.\<close>

definition desired_config :: "env \<Rightarrow> string option \<Rightarrow> 'doc config_arg
    \<Rightarrow> error + 'doc config_arg" where
  "desired_config e filename config =
     (if \<not> truthy filename \<and> \<not> truthy_arg config
      then Inl (ValueError ''filename or config must be specified'')
      else (case filename of
              None \<Rightarrow> Inr config
            | Some f \<Rightarrow>
                if f \<noteq> [] then
                  (case read_text e f of
                     None \<Rightarrow> Inl (OSError f)
                   | Some t \<Rightarrow> Inr (Text t))
                else Inr config))"

text \<open>Lines 510 to 515: the current configuration, fetched from the router when the
  caller gave none.\<close>

definition current_document :: "'doc routeros_diff \<Rightarrow> env \<Rightarrow> SshClient \<Rightarrow> world
    \<Rightarrow> 'doc config_arg \<Rightarrow> 'doc result" where
  "current_document lib e c w current_config =
     (if \<not> truthy_arg current_config then
        (case get_config e c w False of
           (Inl err, c1, w1) \<Rightarrow> (Inl err, c1, w1)
         | (Inr running, c1, w1) \<Rightarrow> (Inr (parse lib running), c1, w1))
      else (case current_config of
              Text t \<Rightarrow> (Inr (parse lib t), c, w)
            | Doc d \<Rightarrow> (Inr d, c, w)
            | NoneArg \<Rightarrow> (Inl (AttributeError ''current_config''), c, w)))"

text \<open>\<^verbatim>\<open>if isinstance(x, str): x = RouterOSConfig.parse(x)\<close>\<close>

fun to_document :: "'doc routeros_diff \<Rightarrow> 'doc config_arg \<Rightarrow> 'doc option" where
  "to_document lib (Text t) = Some (parse lib t)"
| "to_document lib (Doc d) = Some d"
| "to_document lib NoneArg = None"

definition import_command :: "string \<Rightarrow> string" where
  "import_command file_name = ''/import \"'' @ file_name @ ''\"''"

definition SUCCESS :: string where
  "SUCCESS = ''SUCCESS''"

definition verification_failed :: "string \<Rightarrow> error" where
  "verification_failed file_name =
     CommandErrorException
       (''Error while executing script. File remains on the router in file '' @ file_name)"

definition load_replace_candidate :: "'doc routeros_diff \<Rightarrow> env \<Rightarrow> SshClient \<Rightarrow> world
    \<Rightarrow> string option \<Rightarrow> 'doc config_arg \<Rightarrow> 'doc config_arg \<Rightarrow> 'doc config_arg
    \<Rightarrow> unit result" where
  "load_replace_candidate lib e c w filename config current_config current_config_verbose =
     (case desired_config e filename config of
        Inl err \<Rightarrow> (Inl err, c, w)
      | Inr config1 \<Rightarrow>
         (case current_document lib e c w current_config of
            (Inl err, c1, w1) \<Rightarrow> (Inl err, c1, w1)
          | (Inr current, c1, w1) \<Rightarrow>
             (case to_document lib config1 of
                None \<Rightarrow> (Inl (AttributeError ''NoneType object has no attribute diff''), c1, w1)
              | Some cfg \<Rightarrow>
                 (let d = diff lib cfg current (to_document lib current_config_verbose) in
                  if sections d = [] then (Inr (), c1, w1)
                  else
                    (let file_name = ''script-'' @ now e (trace w1) @ ''.rsc'';
                         w2 = log Now w1;
                         script = str d @ [CHR 0x0A] @ ''/file remove \"'' @ file_name @ ''\"''
                                  @ [CHR 0x0A] @ '':put SUCCESS''
                     in with_client e c1 w2 (\<lambda>c3 w3.
                          case write_file e c3 w3 file_name script of
                            (Inl err, c4, w4) \<Rightarrow> (Inl err, c4, w4)
                          | (Inr _, c4, w4) \<Rightarrow>
                             (case exec e c4 w4 (import_command file_name) of
                                (Inl err, c5, w5) \<Rightarrow> (Inl err, c5, w5)
                              | (Inr (stdout, stderr, exit_code), c5, w5) \<Rightarrow>
                                  (let success = sublist SUCCESS stdout in
                                   if \<not> success
                                   then (Inl (verification_failed file_name), c5, w5)
                                   else (Inr (), c5, w5)))))))))"

subsection \<open>Sequences of calls and concrete runs\<close>

text \<open>A caller's sequence of \<^verbatim>\<open>open()\<close> and \<^verbatim>\<open>close()\<close> calls on one client; it stops at the
  first error, as the exception would.\<close>

datatype call = Acquire | Release

fun calls :: "env \<Rightarrow> call list \<Rightarrow> SshClient \<Rightarrow> world \<Rightarrow> unit result" where
  "calls e [] c w = (Inr (), c, w)"
| "calls e (Acquire # rest) c w =
     (case ssh_open e c w of
        (Inl err, c', w') \<Rightarrow> (Inl err, c', w')
      | (Inr _, c', w') \<Rightarrow> calls e rest c' w')"
| "calls e (Release # rest) c w =
     (case ssh_close c w of
        (Inl err, c', w') \<Rightarrow> (Inl err, c', w')
      | (Inr _, c', w') \<Rightarrow> calls e rest c' w')"

text \<open>The events a call has added to the log.\<close>

definition new_events :: "world \<Rightarrow> world \<Rightarrow> event list" where
  "new_events w w' = drop (length (trace w)) (trace w')"

fun is_close :: "event \<Rightarrow> bool" where
  "is_close (Close n) = True"
| "is_close ev = False"

text \<open>Events that are neither an upload, a download, a command nor a reading of the
  clock.\<close>

fun quiet :: "event \<Rightarrow> bool" where
  "quiet (ExecCommand n cmd r) = False"
| "quiet (SftpWrite n path data ok) = False"
| "quiet (SftpRead n path r) = False"
| "quiet Now = False"
| "quiet ev = True"

text \<open>Events that a fetch of the running configuration can add: no upload, no download,
  no reading of the clock, and no command but \<^verbatim>\<open>/export\<close>.\<close>

fun export_only :: "event \<Rightarrow> bool" where
  "export_only (ExecCommand n cmd r) = (cmd = ''/export'')"
| "export_only ev = quiet ev"

text \<open>The base64 text without the final line feed: the lines of \<^verbatim>\<open>encodebytes\<close> joined
  by line feeds.\<close>

function joined :: "byte list \<Rightarrow> string" where
  "joined s =
     (if length s \<le> MAXBINSIZE then b2a_groups s
      else b2a_groups (take MAXBINSIZE s) @ CHR 0x0A # joined (drop MAXBINSIZE s))"
  by pat_completeness auto
termination
  by (relation "measure length") (auto simp: MAXBINSIZE_def)

declare joined.simps [simp del]

text \<open>
  A router that answers, a router that cannot be reached, a diff library on plain
  texts, an empty world and a client as \<^verbatim>\<open>ROSDriver.__init__\<close> builds it. The host
  key of the router is the P-256 key whose point is the generator of the curve; the
  key constructors accept a blob that starts with the name of its algorithm.
\<close>

definition key0_data :: "byte list" where
  "key0_data =
     [0, 0, 0, 19, 101, 99, 100, 115, 97, 45, 115, 104, 97, 50, 45, 110, 105, 115, 116, 112,
      50, 53, 54, 0, 0, 0, 8, 110, 105, 115, 116, 112, 50, 53, 54, 0, 0, 0, 65, 4,
      107, 23, 209, 242, 225, 44, 66, 71, 248, 188, 230, 229, 99, 164, 64, 242,
      119, 3, 125, 129, 45, 235, 51, 160, 244, 161, 57, 69, 216, 152, 194, 150,
      79, 227, 66, 226, 254, 26, 127, 155, 142, 231, 235, 74, 124, 15, 158, 22,
      43, 206, 51, 87, 107, 49, 94, 206, 203, 182, 64, 104, 55, 191, 81, 245]"

definition key0 :: ssh_key where
  "key0 = \<lparr>get_name = ''ecdsa-sha2-nistp256'', asbytes = key0_data\<rparr>"

definition key0_text :: string where
  "key0_text =
     ''ecdsa-sha2-nistp256 ''
     @ ''AAAAE2VjZHNhLXNoYTItbmlzdHAyNTYAAAAIbmlzdHAyNTYAAABBBGsX0fLhLEJH+Lzm5WOkQPJ3''
     @ [CHR 0x0A]
     @ ''A32BLeszoPShOUXYmMKWT+NC4v4af5uO5+tKfA+eFivOM1drMV7Oy7ZAaDe/UfU=''"

definition env0 :: "string \<Rightarrow> int \<Rightarrow> env" where
  "env0 out status =
     \<lparr>server_key = (\<lambda>evs h. Inr key0),
      host_key_ok = (\<lambda>cls data.
         case cls of
           RSAKey \<Rightarrow> take 11 data = [0, 0, 0, 7, 115, 115, 104, 45, 114, 115, 97]
         | ECDSAKey \<Rightarrow> take 10 data = [0, 0, 0, 19, 101, 99, 100, 115, 97, 45]),
      private_key_ok = (\<lambda>path. True),
      connect_reply = (\<lambda>evs args. Connected),
      exec_reply = (\<lambda>evs n cmd. if cmd = ''/export'' then Some (''old'', [], 0)
                                  else Some (out, [], status)),
      sftp_write_ok = (\<lambda>evs n path data. True),
      sftp_read = (\<lambda>evs n path. None),
      read_text = (\<lambda>path. if path = ''desired.rsc'' then Some ''new'' else None),
      now = (\<lambda>evs. ''2021-03-04T05:06:07'')\<rparr>"


definition lib0 :: "string routeros_diff" where
  "lib0 = \<lparr>parse = (\<lambda>t. t),
           diff = (\<lambda>cfg old old_verbose.
                     \<lparr>sections = (if cfg = old then [] else [cfg]), str = cfg\<rparr>)\<rparr>"

definition world0 :: world where
  "world0 = \<lparr>store = [], live = [], next_client = 0, trace = []\<rparr>"

definition client0 :: SshClient where
  "client0 = init ''router1'' ''admin'' None None (Some ''secret'') 60"

definition client1 :: SshClient where
  "client1 = client0\<lparr>client_host_key := Some key0_text\<rparr>"

section \<open>Properties\<close>

subsection \<open>The open count\<close>

lemmas run_defs = ssh_open_def ssh_close_def assert_open_def connection_def exec_def run_def
  write_file_def read_file_def log_def Let_def

lemma a2b_base64_key0:
  "a2b_base64 (drop 20 key0_text) = Inr key0_data"
  by (simp add: key0_text_def a2b_base64_def table_a2b_base64_def BASE64_PAD_def key0_data_def)

lemma parse_key0:
  "parse_host_key key0_text = Inr (''ecdsa-sha2-nistp256'', ECDSAKey, key0_data)"
proof -
  have sp: "split1 key0_text = [''ecdsa-sha2-nistp256'', drop 20 key0_text]"
    by (simp add: split1_def key0_text_def)
  have ascii: "\<not> list_ex (\<lambda>c. (of_char c :: nat) \<ge> 128) (drop 20 key0_text)"
    by (simp add: key0_text_def)
  show ?thesis
    unfolding parse_host_key_def sp b64decode_def using ascii
    by (simp add: a2b_base64_key0)
qed

lemma ssh_open_connected:
  assumes "client_host_key c = Some hk"
      and "parse_host_key hk = Inr (ty, cls, data)"
      and "host_key_ok e cls data"
      and "case private_key c of None \<Rightarrow> True | Some path \<Rightarrow> path = [] \<or> private_key_ok e path"
      and "connect_reply e (trace w) (request c ty cls data) = Connected"
  shows "ssh_open e c w =
     (Inr (), c\<lparr>open_count := open_count c + 1, client := Some (next_client w)\<rparr>,
      w\<lparr>next_client := Suc (next_client w),
        trace := trace w @ [Connect (next_client w) (request c ty cls data) Connected],
        live := next_client w # live w\<rparr>)"
proof -
  have rq: "request (c\<lparr>open_count := open_count c + 1\<rparr>) ty cls data = request c ty cls data"
    by (simp add: request_def)
  have pk: "\<not> (case private_key c of None \<Rightarrow> False
               | Some path \<Rightarrow> path \<noteq> [] \<and> \<not> private_key_ok e path)"
    using assms(4) by (cases "private_key c") auto
  show ?thesis
    unfolding ssh_open_def Let_def
    using assms(1,2,3,5) pk by (simp add: rq log_def)
qed

text \<open>
  Claim C1 (nested acquisitions are counted; the connection is opened on the first
  acquisition and closed on the last release). The count is kept, but \<^verbatim>\<open>open\<close> builds and
  connects a new paramiko client on every call, whatever the count was. On any device
  whose host key paramiko accepts and that accepts the connection, two acquisitions
  followed by two releases therefore connect twice; the last release closes the second
  client only, and the first connection is still up when the count is back at 0.
\<close>

theorem nested_open_connects_twice:
  assumes "open_count c = 0"
      and "client_host_key c = Some hk"
      and "parse_host_key hk = Inr (ty, cls, data)"
      and "host_key_ok e cls data"
      and "case private_key c of None \<Rightarrow> True | Some path \<Rightarrow> path = [] \<or> private_key_ok e path"
      and "\<forall>evs. connect_reply e evs (request c ty cls data) = Connected"
  shows "fst (calls e [Acquire, Acquire, Release, Release] c w) = Inr ()
       \<and> open_count (fst (snd (calls e [Acquire, Acquire, Release, Release] c w))) = 0
       \<and> new_events w (snd (snd (calls e [Acquire, Acquire, Release, Release] c w))) =
           [Connect (next_client w) (request c ty cls data) Connected,
            Connect (Suc (next_client w)) (request c ty cls data) Connected,
            Close (Suc (next_client w))]
       \<and> next_client w \<in> set (live (snd (snd (calls e [Acquire, Acquire, Release, Release] c w))))"
proof -
  define n where "n = next_client w"
  define a where "a = request c ty cls data"
  define c1 where "c1 = c\<lparr>open_count := open_count c + 1, client := Some n\<rparr>"
  define w1 where "w1 = w\<lparr>next_client := Suc n, trace := trace w @ [Connect n a Connected],
                          live := n # live w\<rparr>"
  define c2 where "c2 = c1\<lparr>open_count := open_count c1 + 1, client := Some (Suc n)\<rparr>"
  define w2 where "w2 = w1\<lparr>next_client := Suc (Suc n),
                           trace := trace w1 @ [Connect (Suc n) a Connected],
                           live := Suc n # live w1\<rparr>"
  have o1: "ssh_open e c w = (Inr (), c1, w1)"
    unfolding c1_def w1_def n_def a_def
    by (rule ssh_open_connected[OF assms(2,3,4,5)]) (simp add: assms(6))
  have rq: "request c1 ty cls data = a"
    by (simp add: request_def c1_def a_def)
  have pk1: "case private_key c1 of None \<Rightarrow> True | Some path \<Rightarrow> path = [] \<or> private_key_ok e path"
    using assms(5) by (simp add: c1_def)
  have hk1: "client_host_key c1 = Some hk" using assms(2) by (simp add: c1_def)
  have cr1: "connect_reply e (trace w1) (request c1 ty cls data) = Connected"
    using assms(6) by (simp add: rq a_def)
  have o2: "ssh_open e c1 w1 = (Inr (), c2, w2)"
    using ssh_open_connected[OF hk1 assms(3,4) pk1 cr1]
    by (simp add: c2_def w2_def rq w1_def)
  have oc2: "open_count c2 = 2" using assms(1) by (simp add: c2_def c1_def)
  have cl1: "ssh_close c2 w2 = (Inr (), c2\<lparr>open_count := 1\<rparr>, w2)"
    using oc2 by (simp add: ssh_close_def)
  have cl2: "ssh_close (c2\<lparr>open_count := 1\<rparr>) w2 =
      (Inr (), c2\<lparr>open_count := 0\<rparr>,
       w2\<lparr>live := removeAll (Suc n) (live w2), trace := trace w2 @ [Close (Suc n)]\<rparr>)"
    by (simp add: ssh_close_def log_def c2_def)
  have run: "calls e [Acquire, Acquire, Release, Release] c w =
      (Inr (), c2\<lparr>open_count := 0\<rparr>,
       w2\<lparr>live := removeAll (Suc n) (live w2), trace := trace w2 @ [Close (Suc n)]\<rparr>)"
    by (simp add: o1 o2 cl1 cl2)
  show ?thesis
    unfolding run
    by (simp add: new_events_def w2_def w1_def n_def a_def)
qed

text \<open>The run above on a device with an ECDSA host key that accepts every connection.\<close>

theorem nested_open_connects_twice_witness:
  "fst (calls (env0 [] 0) [Acquire, Acquire, Release, Release] client1 world0) = Inr ()
   \<and> open_count (fst (snd (calls (env0 [] 0) [Acquire, Acquire, Release, Release] client1 world0))) = 0
   \<and> new_events world0 (snd (snd (calls (env0 [] 0) [Acquire, Acquire, Release, Release] client1 world0))) =
       [Connect 0 (request client1 ''ecdsa-sha2-nistp256'' ECDSAKey key0_data) Connected,
        Connect 1 (request client1 ''ecdsa-sha2-nistp256'' ECDSAKey key0_data) Connected,
        Close 1]
   \<and> 0 \<in> set (live (snd (snd (calls (env0 [] 0) [Acquire, Acquire, Release, Release] client1 world0))))"
proof -
  have h1: "open_count client1 = 0" by (simp add: client1_def client0_def init_def)
  have h2: "client_host_key client1 = Some key0_text" by (simp add: client1_def)
  have h4: "host_key_ok (env0 [] 0) ECDSAKey key0_data" by (simp add: env0_def key0_data_def)
  have h5: "case private_key client1 of None \<Rightarrow> True
            | Some path \<Rightarrow> path = [] \<or> private_key_ok (env0 [] 0) path"
    by (simp add: client1_def client0_def init_def)
  have h6: "\<forall>evs. connect_reply (env0 [] 0) evs
               (request client1 ''ecdsa-sha2-nistp256'' ECDSAKey key0_data) = Connected"
    by (simp add: env0_def)
  show ?thesis
    using nested_open_connects_twice[OF h1 h2 parse_key0 h4 h5 h6, of world0]
    by (simp add: world0_def)
qed

text \<open>
  Claim C7 (\<^verbatim>\<open>close\<close> on a client whose count is 0 signals an error). It does not: the
  count becomes \<open>-1\<close>, which Python takes as true, so nothing is closed, nothing is
  raised and the call returns.
\<close>

theorem close_unopened_returns_normally:
  "ssh_close (c\<lparr>open_count := 0\<rparr>) w = (Inr (), c\<lparr>open_count := - 1\<rparr>, w)"
  by (simp add: ssh_close_def)

text \<open>With a count of 0 the four operations raise \<^verbatim>\<open>SshClientNotOpen\<close> and touch nothing.\<close>

lemma operations_closed:
  "open_count c = 0 \<Longrightarrow>
     exec e c w cmd = (Inl (SshClientNotOpen
        ''SSH client needs to be opened first. Call client.open()''), c, w)
   \<and> run e c w cmd b = (Inl (SshClientNotOpen
        ''SSH client needs to be opened first. Call client.open()''), c, w)
   \<and> write_file e c w path data = (Inl (SshClientNotOpen
        ''SSH client needs to be opened first. Call client.open()''), c, w)
   \<and> read_file e c w path = (Inl (SshClientNotOpen
        ''SSH client needs to be opened first. Call client.open()''), c, w)"
  by (simp add: run_defs)

text \<open>
  Claim C8 (with a count that is not positive, \<^verbatim>\<open>exec\<close>, \<^verbatim>\<open>run\<close>, \<^verbatim>\<open>write_file\<close> and
  \<^verbatim>\<open>read_file\<close> fail with \<^verbatim>\<open>SshClientNotOpen\<close>). The guard tests the count for 0 only.
  After \<^verbatim>\<open>close()\<close> on a fresh client the count is \<open>-1\<close>; the guard lets all four
  operations through and they fail on the missing paramiko client instead.
\<close>

theorem operations_pass_guard_below_zero:
  "ssh_close (init h u hk pk pw t) w = (Inr (), (init h u hk pk pw t)\<lparr>open_count := - 1\<rparr>, w)
   \<and> assert_open ((init h u hk pk pw t)\<lparr>open_count := - 1\<rparr>) = Inr ()
   \<and> fst (exec e ((init h u hk pk pw t)\<lparr>open_count := - 1\<rparr>) w cmd)
       = Inl (AttributeError ''NoneType object has no attribute'')
   \<and> fst (run e ((init h u hk pk pw t)\<lparr>open_count := - 1\<rparr>) w cmd b)
       = Inl (AttributeError ''NoneType object has no attribute'')
   \<and> fst (write_file e ((init h u hk pk pw t)\<lparr>open_count := - 1\<rparr>) w path data)
       = Inl (AttributeError ''NoneType object has no attribute'')
   \<and> fst (read_file e ((init h u hk pk pw t)\<lparr>open_count := - 1\<rparr>) w path)
       = Inl (AttributeError ''NoneType object has no attribute'')"
  by (simp add: run_defs init_def)

subsection \<open>The host-key store\<close>

lemma objects_get_hostname: "objects_get rows h = Some r \<Longrightarrow> hostname r = h"
  by (auto simp: objects_get_def find_Some_iff)

lemma objects_get_save: "hostname r = h \<Longrightarrow> objects_get (save r rows) h = Some r"
  by (induction rows) (auto simp: objects_get_def)

lemma get_fingerprint_world: "snd (get_fingerprint e w h) = log (Handshake h) w"
  by (cases "server_key e (trace w) h") (simp_all add: get_fingerprint_def Let_def)

lemma get_fingerprint_nonempty: "fst (get_fingerprint e w h) = Inr fp \<Longrightarrow> fp \<noteq> []"
  by (cases "server_key e (trace w) h")
     (auto simp add: get_fingerprint_def Let_def split: if_splits)

lemma for_hostname_cached:
  "objects_get (store w) h = Some r0 \<Longrightarrow> host_key r0 \<noteq> [] \<Longrightarrow> for_hostname e w h = (Inr r0, w)"
  by (simp add: for_hostname_def)

lemma for_hostname_fetch:
  assumes "(case objects_get (store w) h of None \<Rightarrow> True | Some r0 \<Rightarrow> host_key r0 = [])"
  shows "for_hostname e w h =
     (case fst (get_fingerprint e w h) of
        Inl err \<Rightarrow> (Inl err, log (Handshake h) w)
      | Inr fp \<Rightarrow> (Inr \<lparr>hostname = h, host_key = fp\<rparr>,
           (log (Handshake h) w)\<lparr>store := save \<lparr>hostname = h, host_key = fp\<rparr> (store w)\<rparr>))"
proof (cases "get_fingerprint e w h")
  case (Pair r w1)
  have w1: "w1 = log (Handshake h) w" using get_fingerprint_world[of e w h] Pair by simp
  show ?thesis
  proof (cases "objects_get (store w) h")
    case None
    then show ?thesis using Pair w1
      by (cases r) (simp_all add: for_hostname_def fetch_host_key_def log_def Let_def)
  next
    case (Some r0)
    then have "hostname r0 = h" "host_key r0 = []" using assms objects_get_hostname by auto
    then have "r0 = \<lparr>hostname = h, host_key = []\<rparr>" by simp
    then show ?thesis using Pair w1 Some
      by (cases r) (simp_all add: for_hostname_def fetch_host_key_def log_def Let_def)
  qed
qed

lemma encodebytes_key0: "strip (encodebytes key0_data) = drop 20 key0_text"
  by (simp add: encodebytes.simps key0_data_def key0_text_def strip_def b2a_base64_def
      MAXBINSIZE_def b2a_def table_b2a_base64_def whitespace_def BASE64_PAD_def)

lemma get_fingerprint_key0:
  "get_fingerprint (env0 out st) w h = (Inr key0_text, log (Handshake h) w)"
proof -
  have "key0_text = ''ecdsa-sha2-nistp256'' @ '' '' @ drop 20 key0_text"
    by (simp add: key0_text_def)
  then show ?thesis
    by (simp add: get_fingerprint_def env0_def key0_def preferred_keys_def encodebytes_key0)
qed

text \<open>
  Claim C5 (trust on first use is idempotent). Whenever \<^verbatim>\<open>for_hostname\<close> returns a record,
  a second call in the resulting state returns the same record and changes nothing: the
  record is stored under that hostname with a key that is not empty. The first call has
  fetched the key over the network, once, exactly when the store had no record of the
  hostname or a record with an empty key; otherwise it has returned the stored record
  and left the state as it was.
\<close>

theorem tofu_idempotent:
  assumes "for_hostname e w h = (Inr r, w')"
  shows "for_hostname e w' h = (Inr r, w')
       \<and> objects_get (store w') h = Some r \<and> host_key r \<noteq> []
       \<and> (if (case objects_get (store w) h of None \<Rightarrow> True | Some r0 \<Rightarrow> host_key r0 = [])
          then new_events w w' = [Handshake h]
          else w' = w \<and> objects_get (store w) h = Some r)"
proof (cases "(case objects_get (store w) h of None \<Rightarrow> True | Some r0 \<Rightarrow> host_key r0 = [])")
  case True
  have eq: "(case fst (get_fingerprint e w h) of
        Inl err \<Rightarrow> (Inl err, log (Handshake h) w)
      | Inr fp \<Rightarrow> (Inr \<lparr>hostname = h, host_key = fp\<rparr>,
           (log (Handshake h) w)\<lparr>store := save \<lparr>hostname = h, host_key = fp\<rparr> (store w)\<rparr>))
        = (Inr r, w')"
    using for_hostname_fetch[OF True, of e] assms by simp
  then obtain fp where
    fp: "fst (get_fingerprint e w h) = Inr fp" and
    r: "r = \<lparr>hostname = h, host_key = fp\<rparr>" and
    w': "w' = (log (Handshake h) w)\<lparr>store := save r (store w)\<rparr>"
    by (cases "fst (get_fingerprint e w h)") auto
  have ne: "host_key r \<noteq> []" using get_fingerprint_nonempty[OF fp] r by simp
  have "hostname r = h" using r by simp
  then have got: "objects_get (store w') h = Some r"
    using w' objects_get_save[of r h "store w"] by (simp add: log_def)
  have again: "for_hostname e w' h = (Inr r, w')" by (rule for_hostname_cached[OF got ne])
  have "new_events w w' = [Handshake h]" using w' by (simp add: new_events_def log_def)
  then show ?thesis using True got ne again by simp
next
  case False
  then obtain r0 where r0: "objects_get (store w) h = Some r0" "host_key r0 \<noteq> []"
    by (cases "objects_get (store w) h") auto
  from for_hostname_cached[OF r0, of e] assms have "r = r0" "w' = w" by auto
  then show ?thesis using False r0 for_hostname_cached[OF r0, of e] by simp
qed

text \<open>The first contact with a router that presents its ECDSA key, and the second call.\<close>

theorem tofu_idempotent_witness:
  "for_hostname (env0 [] 0) world0 ''router1'' =
     (Inr \<lparr>hostname = ''router1'', host_key = key0_text\<rparr>,
      \<lparr>store = [\<lparr>hostname = ''router1'', host_key = key0_text\<rparr>], live = [], next_client = 0,
       trace = [Handshake ''router1'']\<rparr>)
   \<and> for_hostname (env0 [] 0)
       \<lparr>store = [\<lparr>hostname = ''router1'', host_key = key0_text\<rparr>], live = [], next_client = 0,
        trace = [Handshake ''router1'']\<rparr> ''router1'' =
     (Inr \<lparr>hostname = ''router1'', host_key = key0_text\<rparr>,
      \<lparr>store = [\<lparr>hostname = ''router1'', host_key = key0_text\<rparr>], live = [], next_client = 0,
       trace = [Handshake ''router1'']\<rparr>)
   \<and> new_events world0
       \<lparr>store = [\<lparr>hostname = ''router1'', host_key = key0_text\<rparr>], live = [], next_client = 0,
        trace = [Handshake ''router1'']\<rparr> = [Handshake ''router1'']"
proof -
  have first: "for_hostname (env0 [] 0) world0 ''router1'' =
     (Inr \<lparr>hostname = ''router1'', host_key = key0_text\<rparr>,
      \<lparr>store = [\<lparr>hostname = ''router1'', host_key = key0_text\<rparr>], live = [], next_client = 0,
       trace = [Handshake ''router1'']\<rparr>)"
    by (simp add: for_hostname_def fetch_host_key_def objects_get_def world0_def
        get_fingerprint_key0 log_def Let_def)
  have absent: "(case objects_get (store world0) ''router1'' of None \<Rightarrow> True
                 | Some r0 \<Rightarrow> host_key r0 = [])"
    by (simp add: objects_get_def world0_def)
  show ?thesis
    using tofu_idempotent[OF first] absent first by simp
qed



end
